theory Spec2Isabelle
  imports Complex_Main "HOL-Library.Sublist"
begin

section \<open>Loom client: a wrapper around a chat-completion endpoint\<close>

text \<open>
  The development embeds \<^verbatim>\<open>src/loom/client.py\<close>: the result class
  \<^verbatim>\<open>LoomResponse\<close> and the two methods \<^verbatim>\<open>LoomClient.generate\<close> and
  \<^verbatim>\<open>LoomClient.generate_structured\<close>.  Exceptions are values of a sum type, and
  the two effects of the code (a request handed to the OpenAI handle, a line printed)
  are recorded in an explicit \<open>world\<close> that every method takes and returns.
\<close>

subsection \<open>Python values\<close>

text \<open>
  \<^verbatim>\<open>float\<close>: the comparisons of the source are exact on floats, so a finite float
  is its real value; the three special values are kept apart.  Every comparison with
  NaN is false.
\<close>

datatype py_float = Finite real | PosInf | NegInf | NaN

fun float_le :: "py_float \<Rightarrow> py_float \<Rightarrow> bool" where
  "float_le (Finite a) (Finite b) = (a \<le> b)"
| "float_le (Finite a) PosInf = True"
| "float_le (Finite a) NegInf = False"
| "float_le PosInf PosInf = True"
| "float_le PosInf (Finite b) = False"
| "float_le PosInf NegInf = False"
| "float_le NegInf (Finite b) = True"
| "float_le NegInf PosInf = True"
| "float_le NegInf NegInf = True"
| "float_le NaN y = False"
| "float_le x NaN = False"

text \<open>
  A value of unknown type (\<^verbatim>\<open>Any\<close>), as the undeclared fields of a server reply
  are, with Python's truth value.
\<close>

datatype py_value =
    PyNone
  | PyBool bool
  | PyInt int
  | PyStr string
  | PyList "py_value list"
  | PyDict "(string \<times> py_value) list"

fun truthy :: "py_value \<Rightarrow> bool" where
  "truthy PyNone = False"
| "truthy (PyBool b) = b"
| "truthy (PyInt i) = (i \<noteq> 0)"
| "truthy (PyStr s) = (s \<noteq> [])"
| "truthy (PyList xs) = (xs \<noteq> [])"
| "truthy (PyDict kvs) = (kvs \<noteq> [])"

text \<open>
  \<^verbatim>\<open>str.strip()\<close> removes leading and trailing whitespace.  A \<open>char\<close> is one
  of the first 256 code points; these are the ones for which \<^verbatim>\<open>str.isspace\<close>
  holds.
\<close>

definition isspace :: "char \<Rightarrow> bool" where
  "isspace c = (of_char c \<in> {9, 10, 11, 12, 13, 28, 29, 30, 31, 32, 133, 160 :: nat})"

definition strip :: "string \<Rightarrow> string" where
  "strip s = rev (dropWhile isspace (rev (dropWhile isspace s)))"

text \<open>\<^verbatim>\<open>str(n)\<close> for an integer, as an f-string renders a status code.\<close>

definition digit_char :: "nat \<Rightarrow> char" where
  "digit_char d = ''0123456789'' ! d"

function str_nat :: "nat \<Rightarrow> string" where
  "str_nat n = (if n < 10 then [digit_char n] else str_nat (n div 10) @ [digit_char (n mod 10)])"
  by pat_completeness auto
termination
  by (relation "measure id") auto

declare str_nat.simps [simp del]

definition str_int :: "int \<Rightarrow> string" where
  "str_int i = (if i < 0 then CHR ''-'' # str_nat (nat (- i)) else str_nat (nat i))"

definition newline :: string where
  "newline = [CHR 0x0A]"

subsection \<open>Errors\<close>

text \<open>
  The two exceptions of the OpenAI library that the code handles, and the exceptions
  that leave the methods.  \<^verbatim>\<open>ValueError\<close> carries its message,
  \<^verbatim>\<open>APIStatusError\<close> its status code, and pydantic's \<^verbatim>\<open>ValidationError\<close> the
  locations of the fields that failed.
\<close>

datatype api_error = APIConnectionError | APIStatusError int

datatype error =
    ValueError string
  | APIError api_error
  | ValidationError "string list"
  | IndexError
  | AttributeError

subsection \<open>The wire: requests and replies of the OpenAI handle\<close>

text \<open>
  The keyword arguments of \<^verbatim>\<open>chat.completions.create\<close>.  An argument that a call
  does not pass, or passes as \<^verbatim>\<open>None\<close>, is \<open>None\<close>.
\<close>

record request =
  model :: string
  messages :: "(string \<times> string) list"
  temperature :: py_float
  max_tokens :: "int option"
  extra_body :: "(string \<times> bool) list option"
  response_format :: "(string \<times> string) list option"

text \<open>
  The reply object.  A field that the library's reply types declare has its declared
  type (\<open>message_content\<close> is \<^verbatim>\<open>message.content\<close>, \<open>choice_finish_reason\<close> is
  \<^verbatim>\<open>choice.finish_reason\<close>, \<open>completion_model\<close> is \<^verbatim>\<open>response.model\<close>) and
  reads \<open>None\<close> when the server omits it or sends null (the library builds
  replies without validating them).  The reasoning text is not a declared field: the
  attribute \<^verbatim>\<open>reasoning_content\<close> holds any value (\<open>PyNone\<close> also when the attribute
  is missing, as \<^verbatim>\<open>getattr(message, "reasoning_content", None)\<close> reads it), and
  \<^verbatim>\<open>model_extra\<close> is the map of undeclared fields (\<open>None\<close> when the message has no
  such attribute).  \<open>other_usage_fields\<close> are the fields of the usage report besides
  the three counters.
\<close>

record ChatCompletionMessage =
  message_content :: "string option"
  reasoning_content :: py_value
  model_extra :: "(string \<times> py_value) list option"

record Choice =
  message :: ChatCompletionMessage
  choice_finish_reason :: "string option"

record CompletionUsage =
  prompt_tokens :: "int option"
  completion_tokens :: "int option"
  total_tokens :: "int option"
  other_usage_fields :: "(string \<times> py_value) list"

record ChatCompletion =
  choices :: "Choice list"
  usage :: "CompletionUsage option"
  completion_model :: "string option"

text \<open>
  The OpenAI handle \<^verbatim>\<open>self.client\<close>: its base URL and what
  \<^verbatim>\<open>chat.completions.create\<close> answers to a request, a reply or one of the two
  exceptions.
\<close>

record OpenAI =
  base_url :: string
  create :: "request \<Rightarrow> api_error + ChatCompletion"

record LoomClient =
  client :: OpenAI
  model_name :: string

text \<open>\<^verbatim>\<open>LoomClient.__init__\<close>; \<open>connect\<close> is the constructor of the OpenAI handle.\<close>

definition LoomClient_init ::
  "(string \<Rightarrow> string \<Rightarrow> OpenAI) \<Rightarrow> string \<Rightarrow> string \<Rightarrow> string \<Rightarrow> LoomClient" where
  "LoomClient_init connect host model_name' api_key =
     \<lparr>client = connect host api_key, model_name = model_name'\<rparr>"

text \<open>The effects: the requests handed to the handle and the lines printed, in order.\<close>

record world =
  calls :: "request list"
  stdout :: "string list"

definition send :: "request \<Rightarrow> world \<Rightarrow> world" where
  "send req w = w\<lparr>calls := calls w @ [req]\<rparr>"

definition print :: "string \<Rightarrow> world \<Rightarrow> world" where
  "print line w = w\<lparr>stdout := stdout w @ [line]\<rparr>"

subsection \<open>\<^verbatim>\<open>LoomResponse\<close>\<close>

record LoomResponse =
  content :: string
  reasoning :: "string option"
  token_usage :: "(string \<times> int) list"
  model_used :: string
  finish_reason :: string

text \<open>
  The constructor call \<^verbatim>\<open>LoomResponse(content=, reasoning=, token_usage=, model_used=,
  finish_reason=)\<close> with all five keywords given, as \<open>generate\<close> calls it.  Pydantic
  checks every field and raises one \<^verbatim>\<open>ValidationError\<close> listing all that failed, in
  the order of the fields: \<^verbatim>\<open>Optional[str]\<close> takes a string or \<^verbatim>\<open>None\<close>,
  \<^verbatim>\<open>Dict[str, int]\<close> and \<^verbatim>\<open>str\<close> do not take \<^verbatim>\<open>None\<close>.  A default of a field
  (\<^verbatim>\<open>"unknown"\<close> for \<^verbatim>\<open>finish_reason\<close>) is used only when its keyword is not
  given, which never happens here.
\<close>

fun optional_str_ok :: "py_value \<Rightarrow> bool" where
  "optional_str_ok PyNone = True"
| "optional_str_ok (PyStr s) = True"
| "optional_str_ok v = False"

fun optional_str :: "py_value \<Rightarrow> string option" where
  "optional_str (PyStr s) = Some s"
| "optional_str v = None"

definition validation_errors ::
  "py_value \<Rightarrow> (string \<times> int option) list \<Rightarrow> string option \<Rightarrow> string option \<Rightarrow> string list" where
  "validation_errors reasoning' token_usage' model_used' finish_reason' =
     (if optional_str_ok reasoning' then [] else [''reasoning''])
     @ concat (map (\<lambda>(k, v). case v of None \<Rightarrow> [''token_usage.'' @ k] | Some n \<Rightarrow> []) token_usage')
     @ (case model_used' of None \<Rightarrow> [''model_used''] | Some s \<Rightarrow> [])
     @ (case finish_reason' of None \<Rightarrow> [''finish_reason''] | Some s \<Rightarrow> [])"

fun int_items :: "(string \<times> int option) list \<Rightarrow> (string \<times> int) list option" where
  "int_items [] = Some []"
| "int_items ((k, None) # kvs) = None"
| "int_items ((k, Some n) # kvs) = (case int_items kvs of None \<Rightarrow> None | Some r \<Rightarrow> Some ((k, n) # r))"

definition LoomResponse_new ::
  "string \<Rightarrow> py_value \<Rightarrow> (string \<times> int option) list \<Rightarrow> string option \<Rightarrow> string option
   \<Rightarrow> error + LoomResponse" where
  "LoomResponse_new content' reasoning' token_usage' model_used' finish_reason' =
     (let errs = validation_errors reasoning' token_usage' model_used' finish_reason' in
      if \<not> optional_str_ok reasoning' then Inl (ValidationError errs)
      else case int_items token_usage' of
        None \<Rightarrow> Inl (ValidationError errs)
      | Some usage_items \<Rightarrow>
          (case model_used' of
             None \<Rightarrow> Inl (ValidationError errs)
           | Some m \<Rightarrow>
               (case finish_reason' of
                  None \<Rightarrow> Inl (ValidationError errs)
                | Some f \<Rightarrow>
                    Inr \<lparr>content = content', reasoning = optional_str reasoning',
                         token_usage = usage_items, model_used = m,
                         finish_reason = f\<rparr>)))"

subsection \<open>\<^verbatim>\<open>LoomClient.generate\<close>\<close>

text \<open>
  The part of \<open>generate\<close> after the request returned (lines 110 to 135): the first
  choice (\<^verbatim>\<open>IndexError\<close> when there is none), the reasoning text from the attribute
  or else from \<^verbatim>\<open>model_extra\<close>, the three counters of the usage report
  (\<^verbatim>\<open>AttributeError\<close> when the report is \<^verbatim>\<open>None\<close>), and the validated result.
\<close>

definition extract_reasoning :: "ChatCompletionMessage \<Rightarrow> py_value" where
  "extract_reasoning msg =
     (let reasoning_content' = reasoning_content msg in
      if \<not> truthy reasoning_content' then
        (case model_extra msg of
           None \<Rightarrow> reasoning_content'
         | Some extra \<Rightarrow>
             (case map_of extra ''reasoning_content'' of None \<Rightarrow> PyNone | Some v \<Rightarrow> v))
      else reasoning_content')"

definition process_response :: "ChatCompletion \<Rightarrow> error + LoomResponse" where
  "process_response response =
     (case choices response of
        [] \<Rightarrow> Inl IndexError
      | choice # rest \<Rightarrow>
          (let reasoning_content' = extract_reasoning (message choice) in
           case usage response of
             None \<Rightarrow> Inl AttributeError
           | Some u \<Rightarrow>
               (let usage_stats =
                      [(''prompt_tokens'', prompt_tokens u),
                       (''completion_tokens'', completion_tokens u),
                       (''total_tokens'', total_tokens u)]
                in LoomResponse_new
                     (case message_content (message choice) of None \<Rightarrow> '''' | Some c \<Rightarrow> if c = [] then '''' else c)
                     reasoning_content' usage_stats (completion_model response)
                     (choice_finish_reason choice))))"

text \<open>The request that \<open>generate\<close> builds (lines 99 to 108).\<close>

definition generate_request ::
  "LoomClient \<Rightarrow> string \<Rightarrow> string \<Rightarrow> py_float \<Rightarrow> int \<Rightarrow> bool \<Rightarrow> request" where
  "generate_request self system_prompt user_prompt temperature' max_tokens' enable_reasoning =
     \<lparr>model = model_name self,
      messages = [(''system'', system_prompt), (''user'', user_prompt)],
      temperature = temperature',
      max_tokens = (if max_tokens' > 0 then Some max_tokens' else None),
      extra_body = Some [(''enable_reasoning'', enable_reasoning)],
      response_format = None\<rparr>"

text \<open>
  \<open>generate\<close>.  \<open>fmt\<close> is Python's rendering of a float in an f-string.  The three
  checks come first and return without touching the world; then the request is
  handed to the handle once; the two library exceptions are printed and raised
  again; an exception of the processing part leaves the method as it is.
\<close>

definition generate ::
  "(py_float \<Rightarrow> string) \<Rightarrow> LoomClient \<Rightarrow> string \<Rightarrow> string \<Rightarrow> py_float \<Rightarrow> int \<Rightarrow> bool
   \<Rightarrow> world \<Rightarrow> (error + LoomResponse) \<times> world" where
  "generate fmt self system_prompt user_prompt temperature' max_tokens' enable_reasoning w =
     (if strip system_prompt = [] then
        (Inl (ValueError ''Pre-condition failed: system_prompt cannot be empty.''), w)
      else if strip user_prompt = [] then
        (Inl (ValueError ''Pre-condition failed: user_prompt cannot be empty.''), w)
      else if \<not> (float_le (Finite 0) temperature' \<and> float_le temperature' (Finite 2)) then
        (Inl (ValueError (''Pre-condition failed: temperature '' @ fmt temperature'
                          @ '' is out of range (0.0-2.0).'')), w)
      else
        (let req = generate_request self system_prompt user_prompt temperature' max_tokens'
                     enable_reasoning;
             w1 = send req w
         in case create (client self) req of
              Inl APIConnectionError \<Rightarrow>
                (Inl (APIError APIConnectionError),
                 print (''Loom Connection Error: Could not reach '' @ base_url (client self)) w1)
            | Inl (APIStatusError status_code) \<Rightarrow>
                (Inl (APIError (APIStatusError status_code)),
                 print (''Loom Status Error: Server returned '' @ str_int status_code) w1)
            | Inr response \<Rightarrow> (process_response response, w1)))"

subsection \<open>\<^verbatim>\<open>LoomClient.generate_structured\<close>\<close>

text \<open>
  The caller's schema class \<^verbatim>\<open>response_model\<close>, with the two class methods that
  the code calls.  \<^verbatim>\<open>model_validate_json\<close> parses a text and returns an instance
  or raises pydantic's \<^verbatim>\<open>ValidationError\<close> (also for a text that is not JSON).
\<close>

record ('s, 'a) response_model =
  model_json_schema :: 's
  model_validate_json :: "string \<Rightarrow> string list + 'a"

text \<open>
  The request of \<open>generate_structured\<close> (lines 173 to 198).  \<open>json_dumps\<close> is
  \<^verbatim>\<open>json.dumps(schema, indent=2)\<close>.
\<close>

definition structured_request ::
  "('s \<Rightarrow> string) \<Rightarrow> LoomClient \<Rightarrow> string \<Rightarrow> string \<Rightarrow> ('s, 'a) response_model \<Rightarrow> py_float
   \<Rightarrow> request" where
  "structured_request json_dumps self system_prompt user_prompt response_model' temperature' =
     (let schema = model_json_schema response_model';
          schema_str = json_dumps schema;
          guided_system_prompt =
            system_prompt @ newline @ newline
            @ ''You must respond with valid JSON strictly following this schema:'' @ newline
            @ ''```json'' @ newline @ schema_str @ newline @ ''```'' @ newline
            @ ''Do not add any markdown formatting or chatter.''
      in \<lparr>model = model_name self,
          messages = [(''system'', guided_system_prompt), (''user'', user_prompt)],
          temperature = temperature',
          max_tokens = None,
          extra_body = None,
          response_format = Some [(''type'', ''json_object'')]\<rparr>)"

text \<open>
  \<open>generate_structured\<close>.  There is no check before the request.  A status error and
  a validation error are printed and raised again; a connection error is not handled
  here and leaves the method as it is.
\<close>

definition generate_structured ::
  "('s \<Rightarrow> string) \<Rightarrow> LoomClient \<Rightarrow> string \<Rightarrow> string \<Rightarrow> ('s, 'a) response_model \<Rightarrow> py_float
   \<Rightarrow> world \<Rightarrow> (error + 'a) \<times> world" where
  "generate_structured json_dumps self system_prompt user_prompt response_model' temperature' w =
     (let req = structured_request json_dumps self system_prompt user_prompt response_model'
                  temperature';
          w1 = send req w
      in case create (client self) req of
           Inl APIConnectionError \<Rightarrow> (Inl (APIError APIConnectionError), w1)
         | Inl (APIStatusError status_code) \<Rightarrow>
             (Inl (APIError (APIStatusError status_code)),
              print (''Loom Status Error: '' @ str_int status_code) w1)
         | Inr response \<Rightarrow>
             (case choices response of
                [] \<Rightarrow> (Inl IndexError, w1)
              | choice # rest \<Rightarrow>
                  (let content' =
                         (case message_content (message choice) of
                            None \<Rightarrow> ''{}''
                          | Some c \<Rightarrow> if c = [] then ''{}'' else c)
                   in case model_validate_json response_model' content' of
                        Inl errs \<Rightarrow>
                          (Inl (ValidationError errs),
                           print (''Loom Validation Error: Model output did not match schema.''
                                  @ newline @ ''Output: '' @ content') w1)
                      | Inr instance \<Rightarrow> (Inr instance, w1))))"

subsection \<open>Sample inputs\<close>

text \<open>
  The client, the reply and the schema classes of the repository's tests, for
  evaluating the methods on concrete calls: a client at \<^verbatim>\<open>http://fake-url\<close> with
  the model \<^verbatim>\<open>test-model\<close> whose handle gives one fixed answer, and the well-formed
  reply of \<^verbatim>\<open>test_successful_generation_structure\<close>.
\<close>

definition stub_client :: "(api_error + ChatCompletion) \<Rightarrow> LoomClient" where
  "stub_client answer =
     \<lparr>client = \<lparr>base_url = ''http://fake-url'', create = (\<lambda>req. answer)\<rparr>,
      model_name = ''test-model''\<rparr>"

definition stub_message :: ChatCompletionMessage where
  "stub_message =
     \<lparr>message_content = Some ''Threadrippers are powerful.'',
      reasoning_content = PyNone,
      model_extra = Some []\<rparr>"

definition stub_usage :: CompletionUsage where
  "stub_usage =
     \<lparr>prompt_tokens = Some 10, completion_tokens = Some 5, total_tokens = Some 15,
      other_usage_fields = [(''completion_tokens_details'', PyNone)]\<rparr>"

definition stub_reply :: ChatCompletion where
  "stub_reply =
     \<lparr>choices = [\<lparr>message = stub_message, choice_finish_reason = Some ''stop''\<rparr>],
      usage = Some stub_usage,
      completion_model = Some ''test-model''\<rparr>"

definition empty_world :: world where
  "empty_world = \<lparr>calls = [], stdout = []\<rparr>"

text \<open>A rendering of floats that covers the values used below.\<close>

definition stub_fmt :: "py_float \<Rightarrow> string" where
  "stub_fmt t = (if t = Finite (- 1) then ''-1.0'' else if t = Finite 2 then ''2.0'' else ''0.7'')"

text \<open>
  Two schema classes as the validator sees them on the text \<^verbatim>\<open>{}\<close>: one with only
  optional fields, which yields its defaults, and \<^verbatim>\<open>HardwareSpecs\<close> of
  \<^verbatim>\<open>test_structure.py\<close>, whose four fields are required.
\<close>

definition optional_only_model :: "(string, (string \<times> py_value) list) response_model" where
  "optional_only_model =
     \<lparr>model_json_schema = ''Note'',
      model_validate_json =
        (\<lambda>text. if text = ''{}'' then Inr [(''note'', PyNone)] else Inl [''note''])\<rparr>"

definition HardwareSpecs :: "(string, (string \<times> py_value) list) response_model" where
  "HardwareSpecs =
     \<lparr>model_json_schema = ''HardwareSpecs'',
      model_validate_json =
        (\<lambda>text. Inl [''cpu_name'', ''core_count'', ''base_clock_ghz'', ''supports_pcie_5''])\<rparr>"

text \<open>
  Replies that differ from the well-formed one in a single place: the first counter
  of the usage report is missing; the finish reason is missing; the content is
  missing; the reasoning attribute and the map of undeclared fields are as given.
\<close>

definition reply_without_prompt_tokens :: ChatCompletion where
  "reply_without_prompt_tokens = stub_reply\<lparr>usage := Some (stub_usage\<lparr>prompt_tokens := None\<rparr>)\<rparr>"

definition reply_without_finish_reason :: ChatCompletion where
  "reply_without_finish_reason =
     stub_reply\<lparr>choices := [\<lparr>message = stub_message, choice_finish_reason = None\<rparr>]\<rparr>"

definition reply_without_content :: ChatCompletion where
  "reply_without_content =
     stub_reply\<lparr>choices := [\<lparr>message = stub_message\<lparr>message_content := None\<rparr>,
                              choice_finish_reason = Some ''stop''\<rparr>]\<rparr>"

definition reply_with_reasoning :: "py_value \<Rightarrow> (string \<times> py_value) list option \<Rightarrow> ChatCompletion" where
  "reply_with_reasoning attribute extra =
     stub_reply\<lparr>choices := [\<lparr>message = stub_message\<lparr>reasoning_content := attribute,
                                                       model_extra := extra\<rparr>,
                              choice_finish_reason = Some ''stop''\<rparr>]\<rparr>"

text \<open>Two replies that lack a whole part: the list of choices is empty; there is no usage report.\<close>

definition reply_without_choices :: ChatCompletion where
  "reply_without_choices = stub_reply\<lparr>choices := []\<rparr>"

definition reply_without_usage :: ChatCompletion where
  "reply_without_usage = stub_reply\<lparr>usage := None\<rparr>"

text \<open>A world in which one line was printed before.\<close>

definition used_world :: world where
  "used_world = \<lparr>calls = [], stdout = [''earlier output'']\<rparr>"

section \<open>Properties\<close>

subsection \<open>Auxiliary facts\<close>

lemma dropWhile_all: "(\<forall>x \<in> set (dropWhile P s). P x) \<longleftrightarrow> (\<forall>x \<in> set s. P x)"
proof
  assume a: "\<forall>x \<in> set (dropWhile P s). P x"
  have "dropWhile P s = []"
  proof (rule ccontr)
    assume n: "dropWhile P s \<noteq> []"
    then have "\<not> P (hd (dropWhile P s))" by (rule hd_dropWhile)
    moreover have "hd (dropWhile P s) \<in> set (dropWhile P s)" using n by simp
    ultimately show False using a by blast
  qed
  then show "\<forall>x \<in> set s. P x" by (simp add: dropWhile_eq_Nil_conv)
next
  assume "\<forall>x \<in> set s. P x"
  then show "\<forall>x \<in> set (dropWhile P s). P x" by (meson set_dropWhileD)
qed

text \<open>A prompt is empty after stripping exactly when it consists of whitespace.\<close>

lemma strip_Nil_iff: "strip s = [] \<longleftrightarrow> (\<forall>c \<in> set s. isspace c)"
  by (simp add: strip_def dropWhile_all)

lemma strip_samples:
  "strip ''Valid'' \<noteq> []" "strip ''System'' \<noteq> []" "strip ''User'' \<noteq> []"
  "strip [] = []" "strip ''   '' = []"
  by (simp_all add: strip_Nil_iff isspace_def)

subsection \<open>Preconditions of \<open>generate\<close>\<close>

text \<open>
  C1.  If the system prompt or the user prompt is empty after stripping whitespace,
  \<open>generate\<close> raises \<^verbatim>\<open>ValueError\<close> with a message that names a field whose
  prompt is empty, whatever the handle would answer, and returns the world as it
  was: no request was handed to the handle and nothing was printed.
\<close>

theorem generate_rejects_blank_prompt:
  assumes "strip system_prompt = [] \<or> strip user_prompt = []"
  shows "\<exists>field.
           (field = ''system_prompt'' \<and> strip system_prompt = []
            \<or> field = ''user_prompt'' \<and> strip user_prompt = [])
           \<and> generate fmt self system_prompt user_prompt t max_tokens' enable_reasoning w
               = (Inl (ValueError (''Pre-condition failed: '' @ field @ '' cannot be empty.'')), w)"
  using assms by (auto simp: generate_def)

theorem generate_rejects_blank_prompt_witness:
  "strip ''   '' = []
   \<and> generate stub_fmt (stub_client (Inr stub_reply)) ''Valid'' ''   '' (Finite 0.7) (- 1) True
         empty_world
       = (Inl (ValueError ''Pre-condition failed: user_prompt cannot be empty.''), empty_world)"
  using generate_rejects_blank_prompt
          [of "''Valid''" "''   ''" stub_fmt "stub_client (Inr stub_reply)" "Finite 0.7" "- 1" True
              empty_world]
  by (auto simp: strip_samples)

text \<open>The range test of the source holds exactly on the closed interval from 0 to 2.\<close>

lemma in_range_iff: "(float_le (Finite 0) t \<and> float_le t (Finite 2)) \<longleftrightarrow> t \<in> Finite ` {0..2}"
  by (cases t) auto

text \<open>Past the three checks, \<open>generate\<close> is the request and its handling.\<close>

lemma generate_checked:
  assumes "strip system_prompt \<noteq> []" "strip user_prompt \<noteq> []" "t \<in> Finite ` {0..2}"
  shows "generate fmt self system_prompt user_prompt t max_tokens' enable_reasoning w =
     (let req = generate_request self system_prompt user_prompt t max_tokens' enable_reasoning;
          w1 = send req w
      in case create (client self) req of
           Inl APIConnectionError \<Rightarrow>
             (Inl (APIError APIConnectionError),
              print (''Loom Connection Error: Could not reach '' @ base_url (client self)) w1)
         | Inl (APIStatusError status_code) \<Rightarrow>
             (Inl (APIError (APIStatusError status_code)),
              print (''Loom Status Error: Server returned '' @ str_int status_code) w1)
         | Inr response \<Rightarrow> (process_response response, w1))"
  using assms in_range_iff[of t] by (simp add: generate_def)

lemma process_response_not_ValueError: "process_response response \<noteq> Inl (ValueError msg)"
  by (auto simp: process_response_def LoomResponse_new_def Let_def split: list.splits option.splits)

text \<open>
  C5.  With prompts that pass their checks: for every temperature outside the closed
  interval from 0.0 to 2.0 (the infinities and NaN among them) \<open>generate\<close> raises
  \<^verbatim>\<open>ValueError\<close> with a message that contains the rendering of the temperature,
  and returns the world as it was, so no request was made; for every temperature
  inside the interval, the endpoints included, \<open>generate\<close> raises no
  \<^verbatim>\<open>ValueError\<close>.
\<close>

theorem generate_temperature_range:
  assumes "strip system_prompt \<noteq> []" and "strip user_prompt \<noteq> []"
  shows "(t \<notin> Finite ` {0..2} \<longrightarrow>
            generate fmt self system_prompt user_prompt t max_tokens' enable_reasoning w
              = (Inl (ValueError (''Pre-condition failed: temperature '' @ fmt t
                                  @ '' is out of range (0.0-2.0).'')), w))
       \<and> (t \<in> Finite ` {0..2} \<longrightarrow>
            (\<forall>msg. fst (generate fmt self system_prompt user_prompt t max_tokens' enable_reasoning w)
                     \<noteq> Inl (ValueError msg)))"
proof (intro conjI impI allI)
  assume "t \<notin> Finite ` {0..2}"
  then have "\<not> (float_le (Finite 0) t \<and> float_le t (Finite 2))" by (simp add: in_range_iff)
  then show "generate fmt self system_prompt user_prompt t max_tokens' enable_reasoning w
              = (Inl (ValueError (''Pre-condition failed: temperature '' @ fmt t
                                  @ '' is out of range (0.0-2.0).'')), w)"
    using assms by (simp add: generate_def)
next
  fix msg
  assume "t \<in> Finite ` {0..2}"
  then show "fst (generate fmt self system_prompt user_prompt t max_tokens' enable_reasoning w)
               \<noteq> Inl (ValueError msg)"
    using assms process_response_not_ValueError
    by (auto simp: generate_checked Let_def split: sum.splits api_error.splits)
qed

lemma temp_samples:
  "Finite (- 1) \<notin> Finite ` {0..2}" "Finite 2 \<in> Finite ` {0..2}" "Finite 0 \<in> Finite ` {0..2}"
  "Finite 0.7 \<in> Finite ` {0..2}" "Finite 0.1 \<in> Finite ` {0..2}"
  by auto

theorem generate_temperature_range_witness:
  "strip ''Valid'' \<noteq> [] \<and> Finite (- 1) \<notin> Finite ` {0..2} \<and> Finite 2 \<in> Finite ` {0..2}
   \<and> Finite 0 \<in> Finite ` {0..2}
   \<and> generate stub_fmt (stub_client (Inr stub_reply)) ''Valid'' ''Valid'' (Finite (- 1)) (- 1) True
         empty_world
       = (Inl (ValueError ''Pre-condition failed: temperature -1.0 is out of range (0.0-2.0).''),
          empty_world)
   \<and> fst (generate stub_fmt (stub_client (Inr stub_reply)) ''Valid'' ''Valid'' (Finite 2) (- 1) True
            empty_world) \<noteq> Inl (ValueError ''x'')
   \<and> fst (generate stub_fmt (stub_client (Inr stub_reply)) ''Valid'' ''Valid'' (Finite 0) (- 1) True
            empty_world) \<noteq> Inl (ValueError ''x'')"
  using generate_temperature_range
          [of "''Valid''" "''Valid''" "Finite (- 1)" stub_fmt "stub_client (Inr stub_reply)" "- 1" True
              empty_world]
        generate_temperature_range
          [of "''Valid''" "''Valid''" "Finite 2" stub_fmt "stub_client (Inr stub_reply)" "- 1" True
              empty_world]
        generate_temperature_range
          [of "''Valid''" "''Valid''" "Finite 0" stub_fmt "stub_client (Inr stub_reply)" "- 1" True
              empty_world]
  by (simp add: strip_samples temp_samples stub_fmt_def)

subsection \<open>The request on the wire\<close>

text \<open>
  C6.  When the checks pass, \<open>generate\<close> hands exactly one request to the handle,
  and its token limit is absent when \<open>max_tokens\<close> is zero or negative and is the
  given value when \<open>max_tokens\<close> is positive.
\<close>

theorem generate_max_tokens_on_wire:
  assumes "strip system_prompt \<noteq> []" and "strip user_prompt \<noteq> []" and "t \<in> Finite ` {0..2}"
  shows "\<exists>req. calls (snd (generate fmt self system_prompt user_prompt t max_tokens' enable_reasoning w))
                 = calls w @ [req]
               \<and> max_tokens req = (if 0 < max_tokens' then Some max_tokens' else None)"
  using assms
  by (auto simp: generate_checked Let_def send_def print_def generate_request_def
           split: sum.splits api_error.splits)

theorem generate_max_tokens_on_wire_witness:
  "strip ''System'' \<noteq> [] \<and> strip ''User'' \<noteq> [] \<and> Finite 0.7 \<in> Finite ` {0..2}
   \<and> (\<exists>req. calls (snd (generate stub_fmt (stub_client (Inr stub_reply)) ''System'' ''User''
                           (Finite 0.7) (- 1) True empty_world)) = calls empty_world @ [req]
            \<and> max_tokens req = None)
   \<and> (\<exists>req. calls (snd (generate stub_fmt (stub_client (Inr stub_reply)) ''System'' ''User''
                           (Finite 0.7) 100 True empty_world)) = calls empty_world @ [req]
            \<and> max_tokens req = Some 100)"
  using generate_max_tokens_on_wire
          [of "''System''" "''User''" "Finite 0.7" stub_fmt "stub_client (Inr stub_reply)" "- 1" True
              empty_world]
        generate_max_tokens_on_wire
          [of "''System''" "''User''" "Finite 0.7" stub_fmt "stub_client (Inr stub_reply)" 100 True
              empty_world]
  by (simp add: strip_samples temp_samples)

subsection \<open>Failures of \<open>generate\<close>\<close>

text \<open>The definitions that a concrete call unfolds.\<close>

lemmas sample_defs = stub_client_def stub_reply_def stub_message_def stub_usage_def empty_world_def
  reply_without_prompt_tokens_def reply_without_finish_reason_def reply_without_content_def
  reply_with_reasoning_def used_world_def reply_without_choices_def reply_without_usage_def

lemmas response_defs = process_response_def extract_reasoning_def LoomResponse_new_def
  validation_errors_def generate_request_def send_def print_def

text \<open>
  C3, as stated, fails for a malformed reply.  The reply below lacks the first
  counter of its usage report, the world has one earlier line of output:
  \<open>generate\<close> raises \<^verbatim>\<open>ValidationError\<close> after its single request, and the
  output is what it was before the call.  No handler of \<open>generate\<close> names
  \<^verbatim>\<open>ValidationError\<close>, so nothing is printed for it.
\<close>

theorem generate_validation_failure_not_logged:
  "generate stub_fmt (stub_client (Inr reply_without_prompt_tokens)) ''System'' ''User''
     (Finite 0.7) (- 1) True used_world
   = (Inl (ValidationError [''token_usage.prompt_tokens'']),
      \<lparr>calls = [generate_request (stub_client (Inr reply_without_prompt_tokens)) ''System'' ''User''
                  (Finite 0.7) (- 1) True],
       stdout = [''earlier output'']\<rparr>)"
  by (simp add: generate_checked strip_samples temp_samples sample_defs response_defs)

text \<open>
  C3, amended.  When the checks pass, \<open>generate\<close> hands exactly one request to the
  handle, whatever happens next (no retry), and every failure leaves \<open>generate\<close>
  unchanged in kind.  When the handle raises a connection error or a status error,
  \<open>generate\<close> raises that same error and has printed exactly one line for it: the
  base URL for a connection error, the status code for a status error.  When the
  handle returns a reply, nothing is printed, and a malformed reply fails as
  follows: with no choice \<open>generate\<close> raises \<^verbatim>\<open>IndexError\<close>; with no usage report
  it raises \<^verbatim>\<open>AttributeError\<close>; otherwise, when the reasoning value is neither text
  nor \<^verbatim>\<open>None\<close> or one of the three counters, the model name or the finish reason
  is missing, it raises the \<^verbatim>\<open>ValidationError\<close> that lists exactly the failing
  fields.  A reply with none of these defects makes \<open>generate\<close> return a result.
\<close>

theorem generate_failure_handling:
  assumes "strip system_prompt \<noteq> []" and "strip user_prompt \<noteq> []" and "t \<in> Finite ` {0..2}"
  shows "let req = generate_request self system_prompt user_prompt t max_tokens' enable_reasoning;
             R = generate fmt self system_prompt user_prompt t max_tokens' enable_reasoning w
         in calls (snd R) = calls w @ [req]
          \<and> (\<forall>e. create (client self) req = Inl e \<longrightarrow>
                fst R = Inl (APIError e)
                \<and> stdout (snd R)
                    = stdout w @
                      [case e of
                         APIConnectionError \<Rightarrow>
                           ''Loom Connection Error: Could not reach '' @ base_url (client self)
                       | APIStatusError status_code \<Rightarrow>
                           ''Loom Status Error: Server returned '' @ str_int status_code])
          \<and> (\<forall>response. create (client self) req = Inr response \<longrightarrow>
                stdout (snd R) = stdout w
                \<and> (choices response = [] \<longrightarrow> fst R = Inl IndexError)
                \<and> (\<forall>choice rest. choices response = choice # rest \<longrightarrow>
                      (usage response = None \<longrightarrow> fst R = Inl AttributeError)
                      \<and> (\<forall>u. usage response = Some u \<longrightarrow>
                            (let errs =
                                   (if optional_str_ok (extract_reasoning (message choice))
                                    then [] else [''reasoning''])
                                   @ (if prompt_tokens u = None
                                      then [''token_usage.prompt_tokens''] else [])
                                   @ (if completion_tokens u = None
                                      then [''token_usage.completion_tokens''] else [])
                                   @ (if total_tokens u = None
                                      then [''token_usage.total_tokens''] else [])
                                   @ (if completion_model response = None
                                      then [''model_used''] else [])
                                   @ (if choice_finish_reason choice = None
                                      then [''finish_reason''] else [])
                             in (errs \<noteq> [] \<longrightarrow> fst R = Inl (ValidationError errs))
                                \<and> (errs = [] \<longrightarrow> (\<exists>r. fst R = Inr r))))))"
proof -
  let ?req = "generate_request self system_prompt user_prompt t max_tokens' enable_reasoning"
  let ?R = "generate fmt self system_prompt user_prompt t max_tokens' enable_reasoning w"
  note unfolded = generate_checked [OF assms, of fmt self max_tokens' enable_reasoning w]
  have one_call: "calls (snd ?R) = calls w @ [?req]"
    by (simp add: unfolded Let_def send_def print_def split: sum.splits api_error.splits)
  have raised: "fst ?R = Inl (APIError e)
      \<and> stdout (snd ?R)
          = stdout w @
            [case e of
               APIConnectionError \<Rightarrow>
                 ''Loom Connection Error: Could not reach '' @ base_url (client self)
             | APIStatusError status_code \<Rightarrow>
                 ''Loom Status Error: Server returned '' @ str_int status_code]"
    if "create (client self) ?req = Inl e" for e
    using that by (cases e) (simp_all add: unfolded Let_def send_def print_def)
  have replied: "fst ?R = process_response response \<and> stdout (snd ?R) = stdout w"
    if "create (client self) ?req = Inr response" for response
    using that by (simp add: unfolded Let_def send_def)
  have no_choice: "process_response response = Inl IndexError"
    if "choices response = []" for response
    using that by (simp add: process_response_def)
  have no_usage: "process_response response = Inl AttributeError"
    if "choices response = choice # rest" "usage response = None" for response choice rest
    using that by (simp add: process_response_def)
  have validated:
    "let errs =
           (if optional_str_ok (extract_reasoning (message choice)) then [] else [''reasoning''])
           @ (if prompt_tokens u = None then [''token_usage.prompt_tokens''] else [])
           @ (if completion_tokens u = None then [''token_usage.completion_tokens''] else [])
           @ (if total_tokens u = None then [''token_usage.total_tokens''] else [])
           @ (if completion_model response = None then [''model_used''] else [])
           @ (if choice_finish_reason choice = None then [''finish_reason''] else [])
     in (errs \<noteq> [] \<longrightarrow> process_response response = Inl (ValidationError errs))
        \<and> (errs = [] \<longrightarrow> (\<exists>r. process_response response = Inr r))"
    if "choices response = choice # rest" "usage response = Some u" for response choice rest u
    using that
    by (cases "prompt_tokens u"; cases "completion_tokens u"; cases "total_tokens u";
        cases "completion_model response"; cases "choice_finish_reason choice")
       (simp_all add: process_response_def LoomResponse_new_def validation_errors_def Let_def)
  show ?thesis
    unfolding Let_def
  proof (intro conjI allI impI)
    show "calls (snd ?R) = calls w @ [?req]" by (rule one_call)
  next
    fix e assume "create (client self) ?req = Inl e"
    then show "fst ?R = Inl (APIError e)" using raised by blast
  next
    fix e assume "create (client self) ?req = Inl e"
    then show "stdout (snd ?R)
          = stdout w @
            [case e of
               APIConnectionError \<Rightarrow>
                 ''Loom Connection Error: Could not reach '' @ base_url (client self)
             | APIStatusError status_code \<Rightarrow>
                 ''Loom Status Error: Server returned '' @ str_int status_code]"
      using raised by blast
  next
    fix response assume "create (client self) ?req = Inr response"
    then show "stdout (snd ?R) = stdout w" using replied by blast
  next
    fix response assume "create (client self) ?req = Inr response" "choices response = []"
    then show "fst ?R = Inl IndexError" using replied no_choice by simp
  next
    fix response choice rest
    assume "create (client self) ?req = Inr response" "choices response = choice # rest"
      "usage response = None"
    then show "fst ?R = Inl AttributeError" using replied no_usage by simp
  next
    fix response choice rest u
    assume r: "create (client self) ?req = Inr response" and c: "choices response = choice # rest"
      and u: "usage response = Some u"
    assume "(if optional_str_ok (extract_reasoning (message choice)) then [] else [''reasoning''])
           @ (if prompt_tokens u = None then [''token_usage.prompt_tokens''] else [])
           @ (if completion_tokens u = None then [''token_usage.completion_tokens''] else [])
           @ (if total_tokens u = None then [''token_usage.total_tokens''] else [])
           @ (if completion_model response = None then [''model_used''] else [])
           @ (if choice_finish_reason choice = None then [''finish_reason''] else []) \<noteq> []"
    then show "fst ?R = Inl (ValidationError
          ((if optional_str_ok (extract_reasoning (message choice)) then [] else [''reasoning''])
           @ (if prompt_tokens u = None then [''token_usage.prompt_tokens''] else [])
           @ (if completion_tokens u = None then [''token_usage.completion_tokens''] else [])
           @ (if total_tokens u = None then [''token_usage.total_tokens''] else [])
           @ (if completion_model response = None then [''model_used''] else [])
           @ (if choice_finish_reason choice = None then [''finish_reason''] else [])))"
      using replied [OF r] validated [OF c u] unfolding Let_def by simp
  next
    fix response choice rest u
    assume r: "create (client self) ?req = Inr response" and c: "choices response = choice # rest"
      and u: "usage response = Some u"
    assume "(if optional_str_ok (extract_reasoning (message choice)) then [] else [''reasoning''])
           @ (if prompt_tokens u = None then [''token_usage.prompt_tokens''] else [])
           @ (if completion_tokens u = None then [''token_usage.completion_tokens''] else [])
           @ (if total_tokens u = None then [''token_usage.total_tokens''] else [])
           @ (if completion_model response = None then [''model_used''] else [])
           @ (if choice_finish_reason choice = None then [''finish_reason''] else []) = []"
    then show "\<exists>r. fst ?R = Inr r"
      using replied [OF r] validated [OF c u] unfolding Let_def by simp
  qed
qed

text \<open>The rendering of a status code.\<close>

lemma str_int_503: "str_int 503 = ''503''"
  by (simp add: str_int_def str_nat.simps digit_char_def)

theorem generate_failure_handling_witness:
  "strip ''System'' \<noteq> [] \<and> strip ''User'' \<noteq> [] \<and> Finite 0.7 \<in> Finite ` {0..2}
   \<and> generate stub_fmt (stub_client (Inl APIConnectionError)) ''System'' ''User'' (Finite 0.7) (- 1)
         True empty_world
       = (Inl (APIError APIConnectionError),
          \<lparr>calls = [generate_request (stub_client (Inl APIConnectionError)) ''System'' ''User''
                      (Finite 0.7) (- 1) True],
           stdout = [''Loom Connection Error: Could not reach http://fake-url'']\<rparr>)
   \<and> generate stub_fmt (stub_client (Inl (APIStatusError 503))) ''System'' ''User'' (Finite 0.7) (- 1)
         True empty_world
       = (Inl (APIError (APIStatusError 503)),
          \<lparr>calls = [generate_request (stub_client (Inl (APIStatusError 503))) ''System'' ''User''
                      (Finite 0.7) (- 1) True],
           stdout = [''Loom Status Error: Server returned 503'']\<rparr>)
   \<and> generate stub_fmt (stub_client (Inr reply_without_finish_reason)) ''System'' ''User''
         (Finite 0.7) (- 1) True empty_world
       = (Inl (ValidationError [''finish_reason'']),
          \<lparr>calls = [generate_request (stub_client (Inr reply_without_finish_reason)) ''System''
                      ''User'' (Finite 0.7) (- 1) True],
           stdout = []\<rparr>)
   \<and> generate stub_fmt (stub_client (Inr reply_without_choices)) ''System'' ''User''
         (Finite 0.7) (- 1) True empty_world
       = (Inl IndexError,
          \<lparr>calls = [generate_request (stub_client (Inr reply_without_choices)) ''System''
                      ''User'' (Finite 0.7) (- 1) True],
           stdout = []\<rparr>)
   \<and> generate stub_fmt (stub_client (Inr reply_without_usage)) ''System'' ''User''
         (Finite 0.7) (- 1) True empty_world
       = (Inl AttributeError,
          \<lparr>calls = [generate_request (stub_client (Inr reply_without_usage)) ''System''
                      ''User'' (Finite 0.7) (- 1) True],
           stdout = []\<rparr>)"
proof -
  have pre: "strip ''System'' \<noteq> []" "strip ''User'' \<noteq> []" "Finite 0.7 \<in> Finite ` {0..2}"
    by (simp_all add: strip_samples temp_samples)
  have whole: "x = (a, \<lparr>calls = cs, stdout = ls\<rparr>)"
    if "fst x = a" "calls (snd x) = cs" "stdout (snd x) = ls"
    for x :: "(error + LoomResponse) \<times> world" and a cs ls
    using that by (cases x) auto
  note a = generate_failure_handling
             [OF pre, where self = "stub_client (Inl APIConnectionError)" and fmt = stub_fmt
                 and max_tokens' = "- 1" and enable_reasoning = True and w = empty_world]
  note b = generate_failure_handling
             [OF pre, where self = "stub_client (Inl (APIStatusError 503))" and fmt = stub_fmt
                 and max_tokens' = "- 1" and enable_reasoning = True and w = empty_world]
  note c = generate_failure_handling
             [OF pre, where self = "stub_client (Inr reply_without_finish_reason)" and fmt = stub_fmt
                 and max_tokens' = "- 1" and enable_reasoning = True and w = empty_world]
  note d = generate_failure_handling
             [OF pre, where self = "stub_client (Inr reply_without_choices)" and fmt = stub_fmt
                 and max_tokens' = "- 1" and enable_reasoning = True and w = empty_world]
  note e = generate_failure_handling
             [OF pre, where self = "stub_client (Inr reply_without_usage)" and fmt = stub_fmt
                 and max_tokens' = "- 1" and enable_reasoning = True and w = empty_world]
  have a': "generate stub_fmt (stub_client (Inl APIConnectionError)) ''System'' ''User'' (Finite 0.7)
              (- 1) True empty_world
            = (Inl (APIError APIConnectionError),
               \<lparr>calls = [generate_request (stub_client (Inl APIConnectionError)) ''System'' ''User''
                           (Finite 0.7) (- 1) True],
                stdout = [''Loom Connection Error: Could not reach http://fake-url'']\<rparr>)"
    using a by (intro whole) (simp_all add: Let_def stub_client_def empty_world_def)
  have b': "generate stub_fmt (stub_client (Inl (APIStatusError 503))) ''System'' ''User''
              (Finite 0.7) (- 1) True empty_world
            = (Inl (APIError (APIStatusError 503)),
               \<lparr>calls = [generate_request (stub_client (Inl (APIStatusError 503))) ''System''
                           ''User'' (Finite 0.7) (- 1) True],
                stdout = [''Loom Status Error: Server returned 503'']\<rparr>)"
    using b by (intro whole) (simp_all add: Let_def stub_client_def empty_world_def str_int_503)
  have c': "generate stub_fmt (stub_client (Inr reply_without_finish_reason)) ''System'' ''User''
              (Finite 0.7) (- 1) True empty_world
            = (Inl (ValidationError [''finish_reason'']),
               \<lparr>calls = [generate_request (stub_client (Inr reply_without_finish_reason))
                           ''System'' ''User'' (Finite 0.7) (- 1) True],
                stdout = []\<rparr>)"
    using c by (intro whole) (simp_all add: Let_def sample_defs extract_reasoning_def)
  have d': "generate stub_fmt (stub_client (Inr reply_without_choices)) ''System'' ''User''
              (Finite 0.7) (- 1) True empty_world
            = (Inl IndexError,
               \<lparr>calls = [generate_request (stub_client (Inr reply_without_choices)) ''System''
                           ''User'' (Finite 0.7) (- 1) True],
                stdout = []\<rparr>)"
    using d by (intro whole) (simp_all add: Let_def sample_defs)
  have e': "generate stub_fmt (stub_client (Inr reply_without_usage)) ''System'' ''User''
              (Finite 0.7) (- 1) True empty_world
            = (Inl AttributeError,
               \<lparr>calls = [generate_request (stub_client (Inr reply_without_usage)) ''System''
                           ''User'' (Finite 0.7) (- 1) True],
                stdout = []\<rparr>)"
    using e by (intro whole) (simp_all add: Let_def sample_defs)
  show ?thesis using pre a' b' c' d' e' by simp
qed

subsection \<open>A reply without finish reason\<close>

text \<open>
  C4 fails on the code.  For a reply that is well formed except that the finish
  reason of its first choice is omitted, \<open>generate\<close> passes \<^verbatim>\<open>None\<close> as the
  keyword \<^verbatim>\<open>finish_reason\<close>; the default \<^verbatim>\<open>"unknown"\<close> of the field applies only
  to a keyword that is not given, so the constructor raises \<^verbatim>\<open>ValidationError\<close>
  for that field and no result is returned.
\<close>

theorem generate_omitted_finish_reason_raises:
  "generate stub_fmt (stub_client (Inr reply_without_finish_reason)) ''System'' ''User''
     (Finite 0.7) (- 1) True empty_world
   = (Inl (ValidationError [''finish_reason'']),
      \<lparr>calls = [generate_request (stub_client (Inr reply_without_finish_reason)) ''System'' ''User''
                  (Finite 0.7) (- 1) True],
       stdout = []\<rparr>)"
  by (simp add: generate_checked strip_samples temp_samples sample_defs response_defs)

subsection \<open>\<open>generate_structured\<close> has no checks\<close>

text \<open>
  C2 fails on the code.  With an empty system prompt and a user prompt of three
  spaces, \<open>generate_structured\<close> raises no \<^verbatim>\<open>ValueError\<close>: it hands the request
  to the handle and returns the instance that the schema class builds from the
  reply.
\<close>

theorem generate_structured_sends_blank_prompts:
  "strip [] = [] \<and> strip ''   '' = []
   \<and> generate_structured (\<lambda>schema. schema) (stub_client (Inr reply_without_content)) [] ''   ''
         optional_only_model (Finite 0.1) empty_world
       = (Inr [(''note'', PyNone)],
          \<lparr>calls = [structured_request (\<lambda>schema. schema) (stub_client (Inr reply_without_content))
                      [] ''   '' optional_only_model (Finite 0.1)],
           stdout = []\<rparr>)"
  by (simp add: strip_samples generate_structured_def sample_defs send_def optional_only_model_def
        Let_def)

subsection \<open>The result of a well-formed reply\<close>

text \<open>
  C7.  Let the checks pass and the reply be well formed (a first choice with a finish
  reason, a usage report with its three counters, a model name).  If the attribute
  \<^verbatim>\<open>reasoning_content\<close> of the message is a non-empty text, the result carries that
  text, whatever the map of undeclared fields holds.  If the attribute is absent and
  the map holds a text under \<^verbatim>\<open>reasoning_content\<close>, the result carries that text.
  If the attribute is absent and the map is missing or holds nothing (or
  \<^verbatim>\<open>None\<close>) under that key, the call still returns a result, with no reasoning.
\<close>

theorem generate_reasoning_capture:
  assumes "strip system_prompt \<noteq> []" and "strip user_prompt \<noteq> []" and "t \<in> Finite ` {0..2}"
    and "create (client self)
           (generate_request self system_prompt user_prompt t max_tokens' enable_reasoning)
         = Inr response"
    and "choices response = choice # rest"
    and "usage response = Some u"
    and "prompt_tokens u = Some p" and "completion_tokens u = Some c" and "total_tokens u = Some n"
    and "completion_model response = Some m"
    and "choice_finish_reason choice = Some f"
  shows "(\<forall>text. text \<noteq> [] \<and> reasoning_content (message choice) = PyStr text \<longrightarrow>
            (\<exists>r. fst (generate fmt self system_prompt user_prompt t max_tokens' enable_reasoning w)
                   = Inr r \<and> reasoning r = Some text))
       \<and> (\<forall>text extra.
            reasoning_content (message choice) = PyNone
            \<and> model_extra (message choice) = Some extra
            \<and> map_of extra ''reasoning_content'' = Some (PyStr text) \<longrightarrow>
            (\<exists>r. fst (generate fmt self system_prompt user_prompt t max_tokens' enable_reasoning w)
                   = Inr r \<and> reasoning r = Some text))
       \<and> (reasoning_content (message choice) = PyNone
          \<and> (case model_extra (message choice) of
                None \<Rightarrow> True
              | Some extra \<Rightarrow> map_of extra ''reasoning_content'' \<in> {None, Some PyNone}) \<longrightarrow>
            (\<exists>r. fst (generate fmt self system_prompt user_prompt t max_tokens' enable_reasoning w)
                   = Inr r \<and> reasoning r = None))"
  using assms
  by (auto simp: generate_checked Let_def process_response_def extract_reasoning_def
        LoomResponse_new_def split: option.splits)

theorem generate_reasoning_capture_witness:
  "strip ''System'' \<noteq> [] \<and> strip ''User'' \<noteq> [] \<and> Finite 0.7 \<in> Finite ` {0..2}
   \<and> (\<exists>r. fst (generate stub_fmt
                  (stub_client (Inr (reply_with_reasoning (PyStr ''Thinking'')
                                       (Some [(''reasoning_content'', PyStr ''Other'')]))))
                  ''System'' ''User'' (Finite 0.7) (- 1) True empty_world) = Inr r
           \<and> reasoning r = Some ''Thinking'')
   \<and> (\<exists>r. fst (generate stub_fmt
                  (stub_client (Inr (reply_with_reasoning PyNone
                                       (Some [(''reasoning_content'', PyStr ''Other'')]))))
                  ''System'' ''User'' (Finite 0.7) (- 1) True empty_world) = Inr r
           \<and> reasoning r = Some ''Other'')
   \<and> (\<exists>r. fst (generate stub_fmt (stub_client (Inr (reply_with_reasoning PyNone (Some []))))
                  ''System'' ''User'' (Finite 0.7) (- 1) True empty_world) = Inr r
           \<and> reasoning r = None)"
proof -
  have pre: "strip ''System'' \<noteq> []" "strip ''User'' \<noteq> []" "Finite 0.7 \<in> Finite ` {0..2}"
    by (simp_all add: strip_samples temp_samples)
  have gen:
    "(\<forall>text. text \<noteq> [] \<and> a = PyStr text \<longrightarrow>
        (\<exists>r. fst (generate stub_fmt (stub_client (Inr (reply_with_reasoning a x))) ''System''
                      ''User'' (Finite 0.7) (- 1) True empty_world) = Inr r
               \<and> reasoning r = Some text))
     \<and> (\<forall>text extra. a = PyNone \<and> x = Some extra
            \<and> map_of extra ''reasoning_content'' = Some (PyStr text) \<longrightarrow>
        (\<exists>r. fst (generate stub_fmt (stub_client (Inr (reply_with_reasoning a x))) ''System''
                      ''User'' (Finite 0.7) (- 1) True empty_world) = Inr r
               \<and> reasoning r = Some text))
     \<and> (a = PyNone
          \<and> (case x of None \<Rightarrow> True
              | Some extra \<Rightarrow> map_of extra ''reasoning_content'' \<in> {None, Some PyNone}) \<longrightarrow>
        (\<exists>r. fst (generate stub_fmt (stub_client (Inr (reply_with_reasoning a x))) ''System''
                      ''User'' (Finite 0.7) (- 1) True empty_world) = Inr r
               \<and> reasoning r = None))" for a x
  proof -
    have shape:
      "create (client (stub_client (Inr (reply_with_reasoning a x))))
         (generate_request (stub_client (Inr (reply_with_reasoning a x))) ''System'' ''User''
            (Finite 0.7) (- 1) True) = Inr (reply_with_reasoning a x)"
      "choices (reply_with_reasoning a x)
         = \<lparr>message = stub_message\<lparr>reasoning_content := a, model_extra := x\<rparr>,
            choice_finish_reason = Some ''stop''\<rparr> # []"
      "usage (reply_with_reasoning a x) = Some stub_usage"
      "prompt_tokens stub_usage = Some 10" "completion_tokens stub_usage = Some 5"
      "total_tokens stub_usage = Some 15"
      "completion_model (reply_with_reasoning a x) = Some ''test-model''"
      "choice_finish_reason
         \<lparr>message = stub_message\<lparr>reasoning_content := a, model_extra := x\<rparr>,
          choice_finish_reason = Some ''stop''\<rparr> = Some ''stop''"
      by (simp_all add: sample_defs)
    show ?thesis
      using generate_reasoning_capture [OF pre shape, of stub_fmt empty_world]
      by (simp add: stub_message_def)
  qed
  note one = gen [where a = "PyStr ''Thinking''"
                    and x = "Some [(''reasoning_content'', PyStr ''Other'')]"]
  note two = gen [where a = PyNone and x = "Some [(''reasoning_content'', PyStr ''Other'')]"]
  note three = gen [where a = PyNone and x = "Some []"]
  show ?thesis using pre one two three by simp
qed

text \<open>
  C8.  Let the checks pass and the reply be well formed, with a usage report whose
  three counters are \<open>p\<close>, \<open>c\<close> and \<open>n\<close> and whose other fields \<open>other\<close> are
  arbitrary.  Then \<open>generate\<close> returns a result, and its token usage consists of
  exactly the three entries \<^verbatim>\<open>prompt_tokens\<close>, \<^verbatim>\<open>completion_tokens\<close> and
  \<^verbatim>\<open>total_tokens\<close> with the values \<open>p\<close>, \<open>c\<close> and \<open>n\<close>: the other fields of the
  report neither appear in the result nor make the call fail.
\<close>

theorem generate_token_usage:
  assumes "strip system_prompt \<noteq> []" and "strip user_prompt \<noteq> []" and "t \<in> Finite ` {0..2}"
    and "create (client self)
           (generate_request self system_prompt user_prompt t max_tokens' enable_reasoning)
         = Inr response"
    and "choices response = choice # rest"
    and "usage response
         = Some \<lparr>prompt_tokens = Some p, completion_tokens = Some c, total_tokens = Some n,
                 other_usage_fields = other\<rparr>"
    and "completion_model response = Some m"
    and "choice_finish_reason choice = Some f"
    and "optional_str_ok (extract_reasoning (message choice))"
  shows "\<exists>r. fst (generate fmt self system_prompt user_prompt t max_tokens' enable_reasoning w) = Inr r
             \<and> token_usage r
                 = [(''prompt_tokens'', p), (''completion_tokens'', c), (''total_tokens'', n)]"
  using assms
  by (simp add: generate_checked Let_def process_response_def LoomResponse_new_def)

theorem generate_token_usage_witness:
  "strip ''System'' \<noteq> [] \<and> strip ''User'' \<noteq> [] \<and> Finite 0.7 \<in> Finite ` {0..2}
   \<and> usage stub_reply
       = Some \<lparr>prompt_tokens = Some 10, completion_tokens = Some 5, total_tokens = Some 15,
               other_usage_fields = [(''completion_tokens_details'', PyNone)]\<rparr>
   \<and> (\<exists>r. fst (generate stub_fmt (stub_client (Inr stub_reply)) ''System'' ''User'' (Finite 0.7)
                  (- 1) True empty_world) = Inr r
           \<and> token_usage r
               = [(''prompt_tokens'', 10), (''completion_tokens'', 5), (''total_tokens'', 15)])"
proof -
  have pre: "strip ''System'' \<noteq> []" "strip ''User'' \<noteq> []" "Finite 0.7 \<in> Finite ` {0..2}"
    by (simp_all add: strip_samples temp_samples)
  have shape:
    "create (client (stub_client (Inr stub_reply)))
       (generate_request (stub_client (Inr stub_reply)) ''System'' ''User'' (Finite 0.7) (- 1) True)
     = Inr stub_reply"
    "choices stub_reply = \<lparr>message = stub_message, choice_finish_reason = Some ''stop''\<rparr> # []"
    "usage stub_reply
       = Some \<lparr>prompt_tokens = Some 10, completion_tokens = Some 5, total_tokens = Some 15,
               other_usage_fields = [(''completion_tokens_details'', PyNone)]\<rparr>"
    "completion_model stub_reply = Some ''test-model''"
    "choice_finish_reason \<lparr>message = stub_message, choice_finish_reason = Some ''stop''\<rparr>
       = Some ''stop''"
    "optional_str_ok
       (extract_reasoning (message \<lparr>message = stub_message, choice_finish_reason = Some ''stop''\<rparr>))"
    by (simp_all add: sample_defs extract_reasoning_def)
  show ?thesis
    using pre shape(3) generate_token_usage [OF pre shape, of stub_fmt empty_world] by simp
qed

subsection \<open>\<open>generate_structured\<close> on a reply without content\<close>

text \<open>
  C10.  When the content of the first choice is absent or the empty string,
  \<open>generate_structured\<close> returns what the schema class makes of the text
  \<^verbatim>\<open>{}\<close>: the instance it builds, or the \<^verbatim>\<open>ValidationError\<close> it raises.  So a
  schema class that accepts \<^verbatim>\<open>{}\<close> (all fields optional) yields its default
  instance, and one that rejects it (a required field) makes the call fail with that
  validation error.
\<close>

theorem generate_structured_empty_content:
  assumes "create (client self)
             (structured_request json_dumps self system_prompt user_prompt response_model' t)
           = Inr response"
    and "choices response = choice # rest"
    and "message_content (message choice) = None \<or> message_content (message choice) = Some []"
  shows "fst (generate_structured json_dumps self system_prompt user_prompt response_model' t w)
         = (case model_validate_json response_model' ''{}'' of
              Inl errs \<Rightarrow> Inl (ValidationError errs)
            | Inr instance \<Rightarrow> Inr instance)"
  using assms
  by (auto simp: generate_structured_def Let_def split: sum.splits)

theorem generate_structured_empty_content_witness:
  "create (client (stub_client (Inr reply_without_content)))
     (structured_request (\<lambda>schema. schema) (stub_client (Inr reply_without_content)) ''System''
        ''User'' optional_only_model (Finite 0.1)) = Inr reply_without_content
   \<and> message_content (message (hd (choices reply_without_content))) = None
   \<and> fst (generate_structured (\<lambda>schema. schema) (stub_client (Inr reply_without_content)) ''System''
            ''User'' optional_only_model (Finite 0.1) empty_world) = Inr [(''note'', PyNone)]
   \<and> fst (generate_structured (\<lambda>schema. schema) (stub_client (Inr reply_without_content)) ''System''
            ''User'' HardwareSpecs (Finite 0.1) empty_world)
     = Inl (ValidationError [''cpu_name'', ''core_count'', ''base_clock_ghz'', ''supports_pcie_5''])"
proof -
  have shape:
    "create (client (stub_client (Inr reply_without_content)))
       (structured_request (\<lambda>schema. schema) (stub_client (Inr reply_without_content)) ''System''
          ''User'' rm (Finite 0.1)) = Inr reply_without_content"
    "choices reply_without_content
       = \<lparr>message = stub_message\<lparr>message_content := None\<rparr>,
          choice_finish_reason = Some ''stop''\<rparr> # []"
    "message_content (message \<lparr>message = stub_message\<lparr>message_content := None\<rparr>,
          choice_finish_reason = Some ''stop''\<rparr>) = None
     \<or> message_content (message \<lparr>message = stub_message\<lparr>message_content := None\<rparr>,
          choice_finish_reason = Some ''stop''\<rparr>) = Some []"
    for rm :: "(string, (string \<times> py_value) list) response_model"
    by (simp_all add: sample_defs)
  show ?thesis
    using shape(1) [of optional_only_model] shape(2)
      generate_structured_empty_content [OF shape, of optional_only_model empty_world]
      generate_structured_empty_content [OF shape, of HardwareSpecs empty_world]
    by (simp add: optional_only_model_def HardwareSpecs_def)
qed

end
